theory Spec2Isabelle
  imports Main
begin

section \<open>Syntax trees of schema documents\<close>

text \<open>
  The engine of \<^verbatim>\<open>Schemata.js\<close> works on the trees that the \<^verbatim>\<open>graphql\<close> parser returns.
  The parser, the printer and the schema builder are libraries outside the repository, so
  an SDL text is represented here by the definitions written in it, and printing a tree
  gives the text in which its definitions are written.

  A top-level definition carries its \<open>kind\<close> string, its \<open>name.value\<close> and the
  sub-collections that its kind has. A property that a node does not have
  (\<^verbatim>\<open>undefined\<close> in the source) is \<open>None\<close>: an enum has \<open>values\<close> and
  \<open>directives\<close> but no \<open>fields\<close>. The properties \<^verbatim>\<open>fields\<close>, \<^verbatim>\<open>values\<close> and
  \<^verbatim>\<open>types\<close> are \<open>typeFields\<close>, \<open>enumValues\<close> and \<open>unionTypes\<close> here. The
  engine reads nothing of a sub-node but its \<open>name.value\<close>; what else it holds
  (arguments, result type, its own directives) is kept as printed text in \<open>sub_rest\<close>,
  and what else a definition holds in \<open>rest\<close>.

  The documents of the model are lists of named definitions: type definitions, their
  extensions and directive definitions. A \<^verbatim>\<open>schema { ... }\<close> definition has no name,
  and the engine's \<^verbatim>\<open>a.name.value\<close> fails on it.
\<close>

record sub_node =
  sub_kind :: string
  sub_name :: string
  sub_rest :: string

record type_node =
  kind :: string
  name :: string
  directives :: "sub_node list option"
  typeFields :: "sub_node list option"
  enumValues :: "sub_node list option"
  unionTypes :: "sub_node list option"
  rest :: string

type_synonym document = "type_node list"

text \<open>
  The four property names that \<^verbatim>\<open>combineTypeAndSubType\<close> and
  \<^verbatim>\<open>pareTypeAndSubType\<close> are called with: \<^verbatim>\<open>'directives'\<close>, \<^verbatim>\<open>'fields'\<close>,
  \<^verbatim>\<open>'values'\<close>, \<^verbatim>\<open>'types'\<close>. \<open>getSub\<close> is the read \<^verbatim>\<open>node[subTypeName]\<close>, and
  \<open>setSub\<close> writes back the array after an in-place \<^verbatim>\<open>push\<close> or \<^verbatim>\<open>splice\<close>.
\<close>

datatype subTypeName = SubDirectives | SubFields | SubValues | SubTypes

fun getSub :: "subTypeName \<Rightarrow> type_node \<Rightarrow> sub_node list option" where
  "getSub SubDirectives t = directives t"
| "getSub SubFields t = typeFields t"
| "getSub SubValues t = enumValues t"
| "getSub SubTypes t = unionTypes t"

fun setSub :: "subTypeName \<Rightarrow> sub_node list \<Rightarrow> type_node \<Rightarrow> type_node" where
  "setSub SubDirectives xs t = t\<lparr>directives := Some xs\<rparr>"
| "setSub SubFields xs t = t\<lparr>typeFields := Some xs\<rparr>"
| "setSub SubValues xs t = t\<lparr>enumValues := Some xs\<rparr>"
| "setSub SubTypes xs t = t\<lparr>unionTypes := Some xs\<rparr>"

section \<open>The array operations of the host language\<close>

text \<open>
  \<^verbatim>\<open>Array.prototype.indexOf\<close> gives \<open>-1\<close> for an element that is not in the array.
  \<^verbatim>\<open>Array.prototype.splice(start, deleteCount, ...items)\<close> counts a negative \<open>start\<close>
  from the end of the array and clamps it to the array's bounds.

  The source compares nodes by identity, the model by value. The engine looks up only a
  node that \<^verbatim>\<open>find\<close> has just returned, the first of its name in its array: in that
  array both comparisons give the position of the first node of that name. In the array
  of another property (\<^verbatim>\<open>lType.fields.indexOf\<close> of a directive) identity gives
  \<open>-1\<close>, and so does comparison by value, since the nodes of different properties
  differ in their \<open>sub_kind\<close>.
\<close>

fun indexOf :: "'a list \<Rightarrow> 'a \<Rightarrow> int" where
  "indexOf [] y = - 1"
| "indexOf (x # xs) y =
     (if x = y then 0 else (let i = indexOf xs y in if i < 0 then - 1 else i + 1))"

definition splice :: "int \<Rightarrow> nat \<Rightarrow> 'a list \<Rightarrow> 'a list \<Rightarrow> 'a list" where
  "splice start deleteCount items xs =
     (let len = int (length xs);
          s = nat (if start < 0 then max (len + start) 0 else min start len)
      in take s xs @ items @ drop (s + deleteCount) xs)"

definition endsWith :: "string \<Rightarrow> string \<Rightarrow> bool" where
  "endsWith s suf = (length suf \<le> length s \<and> drop (length s - length suf) s = suf)"

text \<open>
  A node found with \<^verbatim>\<open>definitions.find\<close> is a reference into the array, and the source
  mutates it in place or removes it with \<^verbatim>\<open>splice(indexOf(lType), 1)\<close>. The found node is
  the first one of that name, so the write-back replaces (\<open>Some\<close>) or removes (\<open>None\<close>)
  the first definition of that name.
\<close>

fun replaceFirst :: "string \<Rightarrow> type_node option \<Rightarrow> document \<Rightarrow> document" where
  "replaceFirst n r [] = []"
| "replaceFirst n r (d # ds) =
     (if name d = n then (case r of None \<Rightarrow> ds | Some d' \<Rightarrow> d' # ds)
      else d # replaceFirst n r ds)"

section \<open>Texts, the parser and the printer\<close>

text \<open>
  An SDL text is represented by the definitions written in it, \<open>None\<close> for a text that
  is outside the grammar altogether. The grammar of the parser the package pins
  (\<^verbatim>\<open>graphql\<close> 0.13, \<open>Document : Definition+\<close>) has no document without a
  definition: a text of blanks or comments, and the \<^verbatim>\<open>"\n"\<close> that the printer gives for a
  tree whose \<^verbatim>\<open>definitions\<close> are empty, is rejected. \<open>parseSDL\<close> is
  \<^verbatim>\<open>Schemata.parse(sdl, false)\<close>, which returns null where the parser throws;
  \<open>printAST\<close> is \<^verbatim>\<open>gql.print\<close>.
\<close>

type_synonym sdl = "document option"

definition parseSDL :: "sdl \<Rightarrow> document option" where
  "parseSDL t = (case t of None \<Rightarrow> None | Some d \<Rightarrow> if d = [] then None else Some d)"

definition printAST :: "document \<Rightarrow> sdl" where
  "printAST d = Some d"

section \<open>Errors\<close>

text \<open>
  \<^verbatim>\<open>normalizeSource\<close> throws \<^verbatim>\<open>new Error(inline`...(received: ${typeDefs})`)\<close>. The tag
  \<^verbatim>\<open>inline\<close> belongs to the package \<^verbatim>\<open>ne-tag-fns\<close>, so the message is kept as what the tag
  is applied to: the strings of the template and the substituted values.
  \<open>invalidTypeDefsTemplate\<close> holds the strings of the template in \<^verbatim>\<open>normalizeSource\<close>.
  \<open>TypeError\<close> is a property read on \<^verbatim>\<open>undefined\<close> or \<^verbatim>\<open>null\<close>, an iteration over
  \<^verbatim>\<open>undefined\<close>, a call of a method that a value does not have, or a \<^verbatim>\<open>delete\<close> or an
  assignment that strict code is refused. \<open>ReferenceError\<close> is the read of the undeclared
  identifier \<^verbatim>\<open>_scalarConfig\<close> in \<^verbatim>\<open>mergeSDL\<close>. \<open>PrintError\<close> is the printer's refusal of
  \<^verbatim>\<open>null\<close>.
\<close>

datatype falsy = JsUndefined | JsNull | JsEmptyString | JsFalse | JsZero | JsNaN

definition invalidTypeDefsTemplate :: "string list" where
  "invalidTypeDefsTemplate =
     [CHR 0x0A # ''      normalizeSource(typeDefs): typeDefs was invalid when passed to the'' @
      CHR 0x0A # ''      function `normalizeSource`. Please check your code and try again.'' @
      CHR 0x0A # CHR 0x0A # ''      (received: '',
      '')'' @ CHR 0x0A # ''    '']"

datatype error = ErrorInline "string list" "falsy list" | TypeError | ReferenceError | PrintError

definition bindE :: "'e + 'a \<Rightarrow> ('a \<Rightarrow> 'e + 'b) \<Rightarrow> 'e + 'b" where
  "bindE m f = (case m of Inl e \<Rightarrow> Inl e | Inr x \<Rightarrow> f x)"

section \<open>Conflict resolvers\<close>

datatype scalarConfig = ScalarConfig string

type_synonym subResolver = "type_node \<Rightarrow> sub_node \<Rightarrow> type_node \<Rightarrow> sub_node \<Rightarrow> sub_node"

type_synonym scalarResolver =
  "type_node \<Rightarrow> scalarConfig option \<Rightarrow> type_node \<Rightarrow> scalarConfig option \<Rightarrow> scalarConfig option"

record ConflictResolvers =
  fieldMergeResolver :: subResolver
  directiveMergeResolver :: subResolver
  enumValueMergeResolver :: subResolver
  typeValueMergeResolver :: subResolver
  scalarMergeResolver :: scalarResolver

definition DefaultFieldMergeResolver :: subResolver where
  "DefaultFieldMergeResolver leftType leftField rightType rightField = rightField"

definition DefaultDirectiveMergeResolver :: subResolver where
  "DefaultDirectiveMergeResolver leftType leftDirective rightType rightDirective = rightDirective"

definition DefaultEnumMergeResolver :: subResolver where
  "DefaultEnumMergeResolver leftType leftValue rightType rightValue = rightValue"

definition DefaultUnionMergeResolver :: subResolver where
  "DefaultUnionMergeResolver leftType leftUnion rightType rightUnion = rightUnion"

definition DefaultScalarMergeResolver :: scalarResolver where
  "DefaultScalarMergeResolver leftScalar leftConfig rightScalar rightConfig =
     (case rightConfig of Some c \<Rightarrow> Some c | None \<Rightarrow> leftConfig)"

definition DefaultConflictResolvers :: ConflictResolvers where
  "DefaultConflictResolvers =
     \<lparr> fieldMergeResolver = DefaultFieldMergeResolver,
       directiveMergeResolver = DefaultDirectiveMergeResolver,
       enumValueMergeResolver = DefaultEnumMergeResolver,
       typeValueMergeResolver = DefaultUnionMergeResolver,
       scalarMergeResolver = DefaultScalarMergeResolver \<rparr>"

text \<open>
  \<^verbatim>\<open>subTypeResolverMap\<close> names the resolver of each property, and
  \<^verbatim>\<open>conflictResolvers[resolver]\<close> reads it.
\<close>

fun subTypeResolverMap :: "subTypeName \<Rightarrow> ConflictResolvers \<Rightarrow> subResolver" where
  "subTypeResolverMap SubFields cr = fieldMergeResolver cr"
| "subTypeResolverMap SubDirectives cr = directiveMergeResolver cr"
| "subTypeResolverMap SubValues cr = enumValueMergeResolver cr"
| "subTypeResolverMap SubTypes cr = typeValueMergeResolver cr"

section \<open>combineTypeAndSubType\<close>

text \<open>
  The loop of \<^verbatim>\<open>combineTypeAndSubType\<close> over the right-hand sub-nodes. The left-hand
  node is mutated in place in the source and threaded through here. The index of the
  replaced element is read from \<^verbatim>\<open>lType.fields\<close>, whatever the property being merged
  is; the read fails with a \<open>TypeError\<close> on a node that has no \<open>fields\<close>.
\<close>

fun combineLoop ::
  "subTypeName \<Rightarrow> ConflictResolvers \<Rightarrow> type_node \<Rightarrow> sub_node list \<Rightarrow> type_node
     \<Rightarrow> error + type_node" where
  "combineLoop s cr rType [] lType = Inr lType"
| "combineLoop s cr rType (rSubType # rSubTypes) lType =
     (case getSub s lType of
        None \<Rightarrow> Inl TypeError
      | Some ls \<Rightarrow>
          (case find (\<lambda>f. sub_name f = sub_name rSubType) ls of
             None \<Rightarrow> combineLoop s cr rType rSubTypes (setSub s (ls @ [rSubType]) lType)
           | Some lSubType \<Rightarrow>
               (let resultingSubType = subTypeResolverMap s cr lType lSubType rType rSubType
                in case typeFields lType of
                     None \<Rightarrow> Inl TypeError
                   | Some fs \<Rightarrow>
                       (let index = indexOf fs lSubType
                        in combineLoop s cr rType rSubTypes
                             (setSub s (splice index 1 [resultingSubType] ls) lType)))))"

definition combineTypeAndSubType ::
  "subTypeName \<Rightarrow> type_node \<Rightarrow> type_node \<Rightarrow> ConflictResolvers \<Rightarrow> error + type_node" where
  "combineTypeAndSubType s lType rType cr =
     (case getSub s rType of
        None \<Rightarrow> Inr lType
      | Some rs \<Rightarrow> combineLoop s cr rType rs lType)"

section \<open>Objects of the host language\<close>

text \<open>
  A resolver map is an object, and \<^verbatim>\<open>pareTypeAndSubType\<close> reads it with
  \<^verbatim>\<open>resolvers[T][f]\<close> and writes it with \<^verbatim>\<open>delete\<close>. A property read finds the own
  properties of an object and those of the objects on its prototype chain, on a function as
  on any other object, so the store holds every object with its own properties and its
  chain: the nested objects of the maps, the functions, \<^verbatim>\<open>Object.prototype\<close> and
  \<^verbatim>\<open>Function.prototype\<close>.

  A value is a function or another object, each with its address in the store, or a
  primitive. The engine only tests a value it has read for truthiness or reads a property
  of it, so a primitive is kept as what these two need: \<open>TruthyPrim w\<close> is a truthy
  primitive, \<open>w\<close> the address of the object it is converted to for a property read (its
  own \<open>length\<close> and the chain of \<^verbatim>\<open>String.prototype\<close> for a string); \<open>Null\<close> is
  \<^verbatim>\<open>null\<close>; \<open>FalsyPrim\<close> is \<^verbatim>\<open>undefined\<close> or another falsy primitive.

  An own property is a data property with its value and its attributes \<open>writable\<close> and
  \<open>configurable\<close>, or the accessor \<^verbatim>\<open>__proto__\<close> of \<^verbatim>\<open>Object.prototype\<close>, whose getter
  returns the prototype of the receiver and whose setter sets it. Other accessors (a getter
  written by the caller, the \<^verbatim>\<open>arguments\<close> and \<^verbatim>\<open>caller\<close> of \<^verbatim>\<open>Function.prototype\<close>)
  are not represented: a read of the model never throws, and where a read of the source
  throws, the call returns no result. \<open>protos\<close> is the prototype chain of an object,
  nearest first; no operation of the engine changes the chain of an object of the store.
\<close>

datatype rval = Fn nat | Ref nat | TruthyPrim nat | Null | FalsyPrim

fun truthy :: "rval \<Rightarrow> bool" where
  "truthy (Fn a) = True"
| "truthy (Ref a) = True"
| "truthy (TruthyPrim w) = True"
| "truthy Null = False"
| "truthy FalsyPrim = False"

datatype slot = Data rval bool bool | ProtoAccessor bool

fun configurable :: "slot \<Rightarrow> bool" where
  "configurable (Data v w c) = c"
| "configurable (ProtoAccessor c) = c"

record jsobj =
  props :: "(string \<times> slot) list"
  protos :: "nat list"

type_synonym heap = "nat \<Rightarrow> jsobj"

text \<open>
  The address of \<^verbatim>\<open>Object.prototype\<close> in the store. An object literal \<^verbatim>\<open>{}\<close> has the
  chain \<open>[objectPrototype]\<close>: the prototype of \<^verbatim>\<open>Object.prototype\<close> is null and cannot
  be set.
\<close>

definition objectPrototype :: nat where
  "objectPrototype = 0"

text \<open>
  \<open>findSlot h chain k\<close> is the first own property named \<open>k\<close> of the objects of
  \<open>chain\<close>; \<open>slotValue chain s\<close> is the value that a read gives for the property it
  found, for a receiver whose prototype chain is \<open>chain\<close>. The prototype that the getter
  of \<^verbatim>\<open>__proto__\<close> returns is given as \<open>Ref\<close>, function or not: the engine only reads
  a property of it.
\<close>

fun findSlot :: "heap \<Rightarrow> nat list \<Rightarrow> string \<Rightarrow> slot option" where
  "findSlot h [] k = None"
| "findSlot h (a # as) k =
     (case map_of (props (h a)) k of Some s \<Rightarrow> Some s | None \<Rightarrow> findSlot h as k)"

definition slotValue :: "nat list \<Rightarrow> slot option \<Rightarrow> rval" where
  "slotValue chain s =
     (case s of
        None \<Rightarrow> FalsyPrim
      | Some (Data v w c) \<Rightarrow> v
      | Some (ProtoAccessor c) \<Rightarrow> (case chain of [] \<Rightarrow> Null | p # ps \<Rightarrow> Ref p))"

text \<open>
  A map that the engine builds with \<^verbatim>\<open>Object.assign({}, ...)\<close> is a new object that only
  the engine holds until it returns it: it is kept by value, as the list \<open>rs\<close> of its own
  properties (all of them data properties, writable and configurable) and its prototype
  chain \<open>tp\<close>. The maps that a caller passes and the map of an instance are given in the
  same way, by their own enumerable properties in the order in which they are enumerated,
  which is what \<^verbatim>\<open>Object.assign\<close> reads of them; \<open>ownProperties\<close> keeps the first
  entry of each key, the one that \<open>map_of\<close> reads.

  \<open>getTop\<close> is the read \<^verbatim>\<open>resolvers[k]\<close> and \<open>getProp\<close> the read \<^verbatim>\<open>base[k]\<close> on a
  value \<open>base\<close> that was found truthy.
\<close>

type_synonym robj = "(string \<times> rval) list"

fun ownProperties :: "robj \<Rightarrow> robj" where
  "ownProperties [] = []"
| "ownProperties ((k, v) # kvs) = (k, v) # ownProperties (filter (\<lambda>p. fst p \<noteq> k) kvs)"

definition getTop :: "nat list \<Rightarrow> robj \<Rightarrow> heap \<Rightarrow> string \<Rightarrow> rval" where
  "getTop tp rs h k =
     (case map_of rs k of Some v \<Rightarrow> v | None \<Rightarrow> slotValue tp (findSlot h tp k))"

fun addressOf :: "rval \<Rightarrow> nat option" where
  "addressOf (Fn a) = Some a"
| "addressOf (Ref a) = Some a"
| "addressOf (TruthyPrim w) = Some w"
| "addressOf Null = None"
| "addressOf FalsyPrim = None"

definition getProp :: "heap \<Rightarrow> rval \<Rightarrow> string \<Rightarrow> rval" where
  "getProp h base k =
     (case addressOf base of
        None \<Rightarrow> FalsyPrim
      | Some a \<Rightarrow> slotValue (protos (h a)) (findSlot h (a # protos (h a)) k))"

text \<open>
  \<open>deleteProp\<close> is \<^verbatim>\<open>delete\<close> on the engine's own map. \<open>deleteFrom\<close> is
  \<^verbatim>\<open>delete base[k]\<close> in strict code (the module is an ES module) on a value of the store:
  an own configurable property is removed, an own property that is not configurable makes
  the operator throw, and a property that is not an own one is left where it is. A
  primitive is converted to a new object for the operator, so nothing of the store
  changes.
\<close>

definition deleteProp :: "string \<Rightarrow> robj \<Rightarrow> robj" where
  "deleteProp k obj = filter (\<lambda>p. fst p \<noteq> k) obj"

definition deleteOwn :: "string \<Rightarrow> jsobj \<Rightarrow> jsobj" where
  "deleteOwn k ob = ob\<lparr>props := filter (\<lambda>p. fst p \<noteq> k) (props ob)\<rparr>"

definition deleteFrom :: "heap \<Rightarrow> rval \<Rightarrow> string \<Rightarrow> error + heap" where
  "deleteFrom h base k =
     (case addressOf base of
        None \<Rightarrow> Inr h
      | Some a \<Rightarrow>
          (case map_of (props (h a)) k of
             None \<Rightarrow> Inr h
           | Some s \<Rightarrow>
               if \<not> configurable s then Inl TypeError
               else (case base of TruthyPrim w \<Rightarrow> Inr h | _ \<Rightarrow> Inr (h(a := deleteOwn k (h a))))))"

text \<open>
  \<^verbatim>\<open>Object.assign(target, source)\<close> on a target that the engine has just made: each own
  enumerable property of the source is assigned to the target in strict mode. The
  assignment creates an own property, unless the target's chain has a property of that
  name that is not writable (the assignment throws) or the accessor \<^verbatim>\<open>__proto__\<close>, whose
  setter gives the target the assigned object, or null, as its prototype and ignores any
  other value.
\<close>

fun assignProps :: "heap \<Rightarrow> robj \<Rightarrow> robj \<times> nat list \<Rightarrow> error + (robj \<times> nat list)" where
  "assignProps h [] target = Inr target"
| "assignProps h ((k, v) # kvs) (rs, tp) =
     (case findSlot h tp k of
        None \<Rightarrow> assignProps h kvs (rs @ [(k, v)], tp)
      | Some (Data u w c) \<Rightarrow>
          if w then assignProps h kvs (rs @ [(k, v)], tp) else Inl TypeError
      | Some (ProtoAccessor c) \<Rightarrow>
          (case v of
             Fn a \<Rightarrow> assignProps h kvs (rs, a # protos (h a))
           | Ref a \<Rightarrow> assignProps h kvs (rs, a # protos (h a))
           | Null \<Rightarrow> assignProps h kvs (rs, [])
           | _ \<Rightarrow> assignProps h kvs (rs, tp)))"

definition objectAssignNew :: "heap \<Rightarrow> robj \<Rightarrow> error + (robj \<times> nat list)" where
  "objectAssignNew h source = assignProps h (ownProperties source) ([], [objectPrototype])"

section \<open>Schemata instances and mergeSDL\<close>

text \<open>
  The rewrite of an extension kind at the head of both loops:
  \<^verbatim>\<open>kind.substring(0, kind.length - 9) + 'Definition'\<close> on a shallow copy.
\<close>

definition normalizeKind :: "type_node \<Rightarrow> type_node" where
  "normalizeKind rType =
     (if endsWith (kind rType) ''Extension''
      then rType\<lparr>kind := take (length (kind rType) - 9) (kind rType) @ ''Definition''\<rparr>
      else rType)"

text \<open>
  A built schema is read only through \<^verbatim>\<open>schema.getType(name)._scalarConfig\<close>: it is a
  map from type names to scalar configs. An instance holds its text, its resolver map
  (given by its own enumerable properties) and its schema; the getter \<^verbatim>\<open>ast\<close> parses the
  text at every read.
\<close>

type_synonym schemaRegistry = "string \<Rightarrow> scalarConfig option"

record Schemata =
  sdl :: sdl
  resolvers :: "robj option"
  schema :: "schemaRegistry option"

definition ast :: "Schemata \<Rightarrow> document option" where
  "ast this = parseSDL (sdl this)"

text \<open>
  The values a caller passes as \<^verbatim>\<open>schemaLanguage\<close>: a falsy value; a value with a
  non-empty text (a string, a \<^verbatim>\<open>Source\<close> with its \<^verbatim>\<open>body\<close>, a \<^verbatim>\<open>Schemata\<close> with its
  \<^verbatim>\<open>sdl\<close>, or any other object, whose text is what its \<^verbatim>\<open>toString()\<close> returns); a
  \<^verbatim>\<open>GraphQLSchema\<close>, which carries its printed text and the resolver map that
  \<^verbatim>\<open>stripResolversFromSchema\<close> reads off it (a new object, its nested objects new in
  the store); an object whose \<^verbatim>\<open>toString()\<close> returns a falsy value, as \<^verbatim>\<open>[]\<close>, for
  which it returns the empty string; an object that has no \<^verbatim>\<open>toString\<close>, as
  \<^verbatim>\<open>Object.create(null)\<close>.
\<close>

datatype typeDefs =
    Falsy falsy
  | Text sdl
  | GraphQLSchemaValue sdl robj
  | ToStringGives falsy
  | NoToString

text \<open>
  \<open>normalizeSourceText\<close> is \<^verbatim>\<open>normalizeSource(typeDefs)\<close>, which returns a non-empty
  text (\<open>Inr\<close>) or the falsy value that \<^verbatim>\<open>toString()\<close> returned (\<open>Inl\<close>).
  \<open>SchemataFrom\<close> is \<^verbatim>\<open>Schemata.from(text, resolvers)\<close> on a non-empty text; the
  parameter \<open>buildSchema\<close> is the library's schema builder, \<open>None\<close> where it throws
  and the getter \<^verbatim>\<open>schema\<close> returns null. \<open>SchemataFromString\<close> is the same call on
  what \<^verbatim>\<open>normalizeSource(typeDefs)\<close> returned: the constructor passes it to
  \<^verbatim>\<open>normalizeSource\<close> again, which throws on a falsy value. \<open>normalizeSource\<close> is
  \<^verbatim>\<open>normalizeSource(typeDefs, true)\<close>, the call of \<^verbatim>\<open>mergeSDL\<close> and \<^verbatim>\<open>pareSDL\<close>.
\<close>

definition normalizeSourceText :: "typeDefs \<Rightarrow> error + (falsy + sdl)" where
  "normalizeSourceText typeDefs =
     (case typeDefs of
        Falsy v \<Rightarrow> Inl (ErrorInline invalidTypeDefsTemplate [v])
      | Text t \<Rightarrow> Inr (Inr t)
      | GraphQLSchemaValue t stripped \<Rightarrow> Inr (Inr t)
      | ToStringGives v \<Rightarrow> Inr (Inl v)
      | NoToString \<Rightarrow> Inl TypeError)"

definition SchemataFrom ::
  "(document \<Rightarrow> schemaRegistry option) \<Rightarrow> sdl \<Rightarrow> robj option \<Rightarrow> Schemata" where
  "SchemataFrom buildSchema text rs =
     \<lparr> sdl = text, resolvers = rs,
       schema = (case parseSDL text of None \<Rightarrow> None | Some d \<Rightarrow> buildSchema d) \<rparr>"

definition SchemataFromString ::
  "(document \<Rightarrow> schemaRegistry option) \<Rightarrow> falsy + sdl \<Rightarrow> robj option \<Rightarrow> error + Schemata" where
  "SchemataFromString buildSchema source rs =
     (case source of
        Inl v \<Rightarrow> Inl (ErrorInline invalidTypeDefsTemplate [v])
      | Inr text \<Rightarrow> Inr (SchemataFrom buildSchema text rs))"

definition normalizeSource ::
  "(document \<Rightarrow> schemaRegistry option) \<Rightarrow> typeDefs \<Rightarrow> error + Schemata" where
  "normalizeSource buildSchema typeDefs =
     bindE (normalizeSourceText typeDefs) (\<lambda>source. SchemataFromString buildSchema source None)"

text \<open>
  The caller's \<^verbatim>\<open>conflictResolvers\<close> argument may hold any of the five keys.
  \<^verbatim>\<open>Object.assign(DefaultConflictResolvers, conflictResolvers)\<close> writes the keys it
  holds into the module-level object and returns that object.
\<close>

record ConflictResolversArg =
  fieldMergeResolverArg :: "subResolver option"
  directiveMergeResolverArg :: "subResolver option"
  enumValueMergeResolverArg :: "subResolver option"
  typeValueMergeResolverArg :: "subResolver option"
  scalarMergeResolverArg :: "scalarResolver option"

definition assignResolvers :: "ConflictResolvers \<Rightarrow> ConflictResolversArg \<Rightarrow> ConflictResolvers" where
  "assignResolvers d c =
     \<lparr> fieldMergeResolver =
         (case fieldMergeResolverArg c of Some f \<Rightarrow> f | None \<Rightarrow> fieldMergeResolver d),
       directiveMergeResolver =
         (case directiveMergeResolverArg c of Some f \<Rightarrow> f | None \<Rightarrow> directiveMergeResolver d),
       enumValueMergeResolver =
         (case enumValueMergeResolverArg c of Some f \<Rightarrow> f | None \<Rightarrow> enumValueMergeResolver d),
       typeValueMergeResolver =
         (case typeValueMergeResolverArg c of Some f \<Rightarrow> f | None \<Rightarrow> typeValueMergeResolver d),
       scalarMergeResolver =
         (case scalarMergeResolverArg c of Some f \<Rightarrow> f | None \<Rightarrow> scalarMergeResolver d) \<rparr>"

type_synonym scalarFns = "(string \<times> scalarConfig) list"

fun setScalarFn :: "string \<Rightarrow> scalarConfig \<Rightarrow> scalarFns \<Rightarrow> scalarFns" where
  "setScalarFn k v [] = [(k, v)]"
| "setScalarFn k v ((k', v') # kvs) =
     (if k = k' then (k, v) # kvs else (k', v') # setScalarFn k v kvs)"

text \<open>The \<^verbatim>\<open>switch (lType.kind)\<close> of \<^verbatim>\<open>mergeSDL\<close>, for a right-hand node that has a
  left-hand node of its name.\<close>

definition mergeSwitch ::
  "ConflictResolvers \<Rightarrow> schemaRegistry option \<Rightarrow> schemaRegistry option \<Rightarrow> type_node \<Rightarrow> type_node
     \<Rightarrow> scalarFns \<Rightarrow> error + (type_node \<times> scalarFns)" where
  "mergeSwitch cr lSchema rSchema lType rType sf =
     (if kind lType = ''EnumTypeDefinition'' then
        bindE (combineTypeAndSubType SubDirectives lType rType cr) (\<lambda>l1.
        bindE (combineTypeAndSubType SubValues l1 rType cr) (\<lambda>l2. Inr (l2, sf)))
      else if kind lType = ''UnionTypeDefinition'' then
        bindE (combineTypeAndSubType SubDirectives lType rType cr) (\<lambda>l1.
        bindE (combineTypeAndSubType SubTypes l1 rType cr) (\<lambda>l2. Inr (l2, sf)))
      else if kind lType = ''ScalarTypeDefinitionNode'' then
        bindE (combineTypeAndSubType SubDirectives lType rType cr) (\<lambda>l1.
          (let lScalarConfig = (case lSchema of None \<Rightarrow> None | Some g \<Rightarrow> g (name l1));
               rScalarConfig = (case rSchema of None \<Rightarrow> None | Some g \<Rightarrow> g (name rType));
               resolver = scalarMergeResolver cr l1 lScalarConfig rType rScalarConfig
           in Inr (l1, case resolver of None \<Rightarrow> sf | Some c \<Rightarrow> setScalarFn (name l1) c sf)))
      else
        bindE (combineTypeAndSubType SubDirectives lType rType cr) (\<lambda>l1.
        bindE (combineTypeAndSubType SubFields l1 rType cr) (\<lambda>l2. Inr (l2, sf))))"

text \<open>The \<^verbatim>\<open>for (let rType of rAST.definitions)\<close> loop of \<^verbatim>\<open>mergeSDL\<close>; the state is
  \<^verbatim>\<open>lAST.definitions\<close> and \<^verbatim>\<open>_scalarFns\<close>.\<close>

fun mergeLoop ::
  "ConflictResolvers \<Rightarrow> schemaRegistry option \<Rightarrow> schemaRegistry option \<Rightarrow> document
     \<Rightarrow> document \<times> scalarFns \<Rightarrow> error + (document \<times> scalarFns)" where
  "mergeLoop cr lSchema rSchema [] st = Inr st"
| "mergeLoop cr lSchema rSchema (rType0 # rTypes) (lAST, sf) =
     (let rType = normalizeKind rType0
      in case find (\<lambda>a. name a = name rType0) lAST of
           None \<Rightarrow> mergeLoop cr lSchema rSchema rTypes (lAST @ [rType], sf)
         | Some lType \<Rightarrow>
             bindE (mergeSwitch cr lSchema rSchema lType rType sf) (\<lambda>(lType', sf').
               mergeLoop cr lSchema rSchema rTypes
                 (replaceFirst (name rType0) (Some lType') lAST, sf')))"

text \<open>
  \<^verbatim>\<open>mergeSDL\<close>. The module-level \<^verbatim>\<open>DefaultConflictResolvers\<close> object is state: the
  function takes its current value and returns its value after the call, next to the
  result. An omitted (or null) \<^verbatim>\<open>conflictResolvers\<close> argument is \<open>None\<close>. The
  \<^verbatim>\<open>if (!source) throw\<close> after \<^verbatim>\<open>normalizeSource(schemaLanguage, true)\<close> has no
  branch here: a returned \<^verbatim>\<open>source\<close> is an object and never falsy, so the \<^verbatim>\<open>Error\<close> of
  that statement, whose message names \<^verbatim>\<open>mergeSDL\<close>, is never thrown. The getter
  \<^verbatim>\<open>ast\<close> returns null for a text that does not parse, and the loop then fails on
  \<^verbatim>\<open>rAST.definitions\<close> or \<^verbatim>\<open>lAST.definitions\<close>. The last step reads the undeclared
  \<^verbatim>\<open>_scalarConfig\<close> as soon as \<^verbatim>\<open>_scalarFns\<close> has a key.
\<close>

definition mergeSDL ::
  "(document \<Rightarrow> schemaRegistry option) \<Rightarrow> ConflictResolvers \<Rightarrow> Schemata \<Rightarrow> typeDefs
     \<Rightarrow> ConflictResolversArg option \<Rightarrow> ConflictResolvers \<times> (error + Schemata)" where
  "mergeSDL buildSchema defaults this schemaLanguage conflictResolversArg =
     (case normalizeSource buildSchema schemaLanguage of
        Inl e \<Rightarrow> (defaults, Inl e)
      | Inr source \<Rightarrow>
          (let conflictResolvers =
                 (case conflictResolversArg of
                    None \<Rightarrow> defaults
                  | Some c \<Rightarrow> assignResolvers defaults c)
           in (conflictResolvers,
               case ast source of
                 None \<Rightarrow> Inl TypeError
               | Some rDefs \<Rightarrow>
                   (case ast this of
                      None \<Rightarrow> (if rDefs = [] then Inl PrintError else Inl TypeError)
                    | Some lDefs \<Rightarrow>
                        bindE (mergeLoop conflictResolvers (schema this) (schema source)
                                 rDefs (lDefs, []))
                          (\<lambda>(lAST, sf).
                             (let merged = SchemataFrom buildSchema (printAST lAST) None
                              in if sf \<noteq> [] then
                                   (case schema merged of
                                      None \<Rightarrow> Inl TypeError
                                    | Some g \<Rightarrow> Inl ReferenceError)
                                 else Inr merged))))))"

section \<open>pareTypeAndSubType and pareSDL\<close>

text \<open>
  The resolver map that \<^verbatim>\<open>pareSDL\<close> works on is \<^verbatim>\<open>Object.assign({}, map)\<close>: an object
  of its own, with the own properties \<open>rs\<close> and the chain \<open>tp\<close>, whose nested objects
  are the ones of the store \<open>h\<close>, shared with the caller's map. \<open>deleteResolver\<close> is the
  statement
  \<^verbatim>\<open>if (resolvers[T] && resolvers[T][f]) delete resolvers[T][f] else if (resolvers[f]) delete resolvers[f]\<close>
  of \<^verbatim>\<open>pareTypeAndSubType\<close>: the first \<^verbatim>\<open>delete\<close> writes to an object of the store, the
  second to the copy, whose own properties are all configurable. An exception leaves the
  store as it is at the throw, so an error carries the store.
\<close>

definition deleteResolver ::
  "nat list \<Rightarrow> string \<Rightarrow> string \<Rightarrow> robj \<Rightarrow> heap \<Rightarrow> (error \<times> heap) + (robj \<times> heap)" where
  "deleteResolver tp T f rs h =
     (let base = getTop tp rs h T
      in if truthy base \<and> truthy (getProp h base f) then
           (case deleteFrom h base f of
              Inl e \<Rightarrow> Inl (e, h)
            | Inr h' \<Rightarrow> Inr (rs, h'))
         else if truthy (getTop tp rs h f) then Inr (deleteProp f rs, h)
         else Inr (rs, h))"

fun pareLoop ::
  "nat list \<Rightarrow> subTypeName \<Rightarrow> sub_node list \<Rightarrow> type_node \<Rightarrow> robj \<Rightarrow> heap
     \<Rightarrow> (error \<times> heap) + (type_node \<times> robj \<times> heap)" where
  "pareLoop tp s [] lType rs h = Inr (lType, rs, h)"
| "pareLoop tp s (rSubType # rSubTypes) lType rs h =
     (case getSub s lType of
        None \<Rightarrow> Inl (TypeError, h)
      | Some ls \<Rightarrow>
          (case find (\<lambda>f. sub_name f = sub_name rSubType) ls of
             None \<Rightarrow> pareLoop tp s rSubTypes lType rs h
           | Some lSubType \<Rightarrow>
               (case typeFields lType of
                  None \<Rightarrow> Inl (TypeError, h)
                | Some fs \<Rightarrow>
                    (let index = indexOf fs lSubType;
                         lType' = setSub s (splice index 1 [] ls) lType
                     in bindE (deleteResolver tp (name lType) (sub_name lSubType) rs h)
                          (\<lambda>(rs', h'). pareLoop tp s rSubTypes lType' rs' h')))))"

definition pareTypeAndSubType ::
  "nat list \<Rightarrow> subTypeName \<Rightarrow> type_node \<Rightarrow> type_node \<Rightarrow> robj \<Rightarrow> heap
     \<Rightarrow> (error \<times> heap) + (type_node \<times> robj \<times> heap)" where
  "pareTypeAndSubType tp s lType rType rs h =
     (case getSub s rType of
        None \<Rightarrow> Inl (TypeError, h)
      | Some rSubTypes \<Rightarrow> pareLoop tp s rSubTypes lType rs h)"

text \<open>
  The tail of three branches of the \<^verbatim>\<open>switch\<close> in \<^verbatim>\<open>pareSDL\<close>:
  \<^verbatim>\<open>if (!lType[p].length)\<close> the node is removed from the definitions (\<open>None\<close>), and the
  read of \<^verbatim>\<open>length\<close> fails on a node without the property.
\<close>

definition dropIfEmpty ::
  "subTypeName \<Rightarrow> type_node \<times> robj \<times> heap \<Rightarrow> (error \<times> heap) + (type_node option \<times> robj \<times> heap)" where
  "dropIfEmpty s st =
     (case st of (lType, rs, h) \<Rightarrow>
        (case getSub s lType of
           None \<Rightarrow> Inl (TypeError, h)
         | Some xs \<Rightarrow> Inr (if xs = [] then None else Some lType, rs, h)))"

definition pareSwitch ::
  "nat list \<Rightarrow> type_node \<Rightarrow> type_node \<Rightarrow> robj \<Rightarrow> heap
     \<Rightarrow> (error \<times> heap) + (type_node option \<times> robj \<times> heap)" where
  "pareSwitch tp lType rType rs h =
     (if kind lType = ''EnumTypeDefinition'' then
        bindE (pareTypeAndSubType tp SubDirectives lType rType rs h) (\<lambda>(l1, rs1, h1).
        bindE (pareTypeAndSubType tp SubValues l1 rType rs1 h1) (dropIfEmpty SubValues))
      else if kind lType = ''UnionTypeDefinition'' then
        bindE (pareTypeAndSubType tp SubDirectives lType rType rs h) (\<lambda>(l1, rs1, h1).
        bindE (pareTypeAndSubType tp SubTypes l1 rType rs1 h1) (dropIfEmpty SubTypes))
      else if kind lType = ''ScalarTypeDefinitionNode'' then
        Inr (None, rs, h)
      else
        bindE (pareTypeAndSubType tp SubDirectives lType rType rs h) (\<lambda>(l1, rs1, h1).
        bindE (pareTypeAndSubType tp SubFields l1 rType rs1 h1) (dropIfEmpty SubFields)))"

text \<open>The \<^verbatim>\<open>for (let rType of rAST.definitions)\<close> loop of \<^verbatim>\<open>pareSDL\<close>; the state is
  \<^verbatim>\<open>lAST.definitions\<close>, the own properties of the copied resolver map and the store.\<close>

fun pareDefinitions ::
  "nat list \<Rightarrow> document \<Rightarrow> document \<times> robj \<times> heap
     \<Rightarrow> (error \<times> heap) + (document \<times> robj \<times> heap)" where
  "pareDefinitions tp [] st = Inr st"
| "pareDefinitions tp (rType0 # rTypes) (lAST, rs, h) =
     (let rType = normalizeKind rType0
      in case find (\<lambda>a. name a = name rType0) lAST of
           None \<Rightarrow> pareDefinitions tp rTypes (lAST @ [rType], rs, h)
         | Some lType \<Rightarrow>
             bindE (pareSwitch tp lType rType rs h) (\<lambda>(r, rs', h').
               pareDefinitions tp rTypes (replaceFirst (name rType0) r lAST, rs', h')))"

text \<open>
  The resolver map that \<^verbatim>\<open>pareSDL\<close> starts from:
  \<^verbatim>\<open>Object.assign({}, resolverMap || this.resolvers || {})\<close>, where a
  \<^verbatim>\<open>GraphQLSchema\<close> passed with no map gives the map stripped from it. The
  \<^verbatim>\<open>resolverMap\<close> argument is \<open>None\<close> when it is omitted or null. \<open>chosenResolvers\<close>
  is the map that is copied, \<open>initialResolvers\<close> the copy.
\<close>

definition chosenResolvers :: "Schemata \<Rightarrow> typeDefs \<Rightarrow> robj option \<Rightarrow> robj" where
  "chosenResolvers this schemaLanguage resolverMapArg =
     (let resolverMap =
            (case schemaLanguage of
               GraphQLSchemaValue t stripped \<Rightarrow>
                 (case resolverMapArg of None \<Rightarrow> Some stripped | Some m \<Rightarrow> Some m)
             | _ \<Rightarrow> resolverMapArg)
      in case resolverMap of
           Some m \<Rightarrow> m
         | None \<Rightarrow> (case resolvers this of Some m \<Rightarrow> m | None \<Rightarrow> []))"

definition initialResolvers ::
  "heap \<Rightarrow> Schemata \<Rightarrow> typeDefs \<Rightarrow> robj option \<Rightarrow> error + (robj \<times> nat list)" where
  "initialResolvers h this schemaLanguage resolverMapArg =
     objectAssignNew h (chosenResolvers this schemaLanguage resolverMapArg)"

text \<open>
  \<^verbatim>\<open>pareSDL\<close> takes the store and returns it after the call, next to the result. The
  result is built from the printed tree; its text does not parse when no definition is
  left. The final \<^verbatim>\<open>result.executableSchema\<close> reads the map and caches the built schema
  on the result. The \<^verbatim>\<open>if (!source) throw\<close> has no branch here, as in \<^verbatim>\<open>mergeSDL\<close>.
\<close>

definition pareSDL ::
  "(document \<Rightarrow> schemaRegistry option) \<Rightarrow> heap \<Rightarrow> Schemata \<Rightarrow> typeDefs \<Rightarrow> robj option
     \<Rightarrow> heap \<times> (error + Schemata)" where
  "pareSDL buildSchema h this schemaLanguage resolverMapArg =
     (case normalizeSource buildSchema schemaLanguage of
        Inl e \<Rightarrow> (h, Inl e)
      | Inr source \<Rightarrow>
          (case initialResolvers h this schemaLanguage resolverMapArg of
             Inl e \<Rightarrow> (h, Inl e)
           | Inr (resolvers0, tp) \<Rightarrow>
               (case ast source of
                  None \<Rightarrow> (h, Inl TypeError)
                | Some rDefs \<Rightarrow>
                    (case ast this of
                       None \<Rightarrow> (h, if rDefs = [] then Inl PrintError else Inl TypeError)
                     | Some lDefs \<Rightarrow>
                         (case pareDefinitions tp rDefs (lDefs, resolvers0, h) of
                            Inl (e, h') \<Rightarrow> (h', Inl e)
                          | Inr (lAST, rs, h') \<Rightarrow>
                              (h', Inr (SchemataFrom buildSchema (printAST lAST) (Some rs))))))))"

section \<open>Nodes as the parser builds them, and the documents of the scenarios\<close>

text \<open>
  The nodes of the \<^verbatim>\<open>graphql\<close> parser with the properties the engine reads: an object
  type has \<open>directives\<close> and \<open>fields\<close>, an enum \<open>directives\<close> and \<open>values\<close>, a
  union \<open>directives\<close> and \<open>types\<close>, a scalar \<open>directives\<close> only. \<open>documentA\<close>
  and \<open>documentB\<close> are the documents of the end-to-end scenario,
  \<open>type Query { hello: String } type Foo { a: Int }\<close> and
  \<open>type Query { world: String } type Foo { a: Int b: Int }\<close>.
\<close>

definition fieldDefinition :: "string \<Rightarrow> string \<Rightarrow> sub_node" where
  "fieldDefinition n t = \<lparr> sub_kind = ''FieldDefinition'', sub_name = n, sub_rest = t \<rparr>"

definition directiveNode :: "string \<Rightarrow> string \<Rightarrow> sub_node" where
  "directiveNode n args = \<lparr> sub_kind = ''Directive'', sub_name = n, sub_rest = args \<rparr>"

definition enumValueDefinition :: "string \<Rightarrow> sub_node" where
  "enumValueDefinition n = \<lparr> sub_kind = ''EnumValueDefinition'', sub_name = n, sub_rest = [] \<rparr>"

definition namedType :: "string \<Rightarrow> sub_node" where
  "namedType n = \<lparr> sub_kind = ''NamedType'', sub_name = n, sub_rest = [] \<rparr>"

definition objectTypeDefinition :: "string \<Rightarrow> sub_node list \<Rightarrow> sub_node list \<Rightarrow> type_node" where
  "objectTypeDefinition n ds fs =
     \<lparr> kind = ''ObjectTypeDefinition'', name = n, directives = Some ds, typeFields = Some fs,
       enumValues = None, unionTypes = None, rest = [] \<rparr>"

definition enumTypeDefinition :: "string \<Rightarrow> sub_node list \<Rightarrow> sub_node list \<Rightarrow> type_node" where
  "enumTypeDefinition n ds vs =
     \<lparr> kind = ''EnumTypeDefinition'', name = n, directives = Some ds, typeFields = None,
       enumValues = Some vs, unionTypes = None, rest = [] \<rparr>"

definition unionTypeDefinition :: "string \<Rightarrow> sub_node list \<Rightarrow> sub_node list \<Rightarrow> type_node" where
  "unionTypeDefinition n ds ts =
     \<lparr> kind = ''UnionTypeDefinition'', name = n, directives = Some ds, typeFields = None,
       enumValues = None, unionTypes = Some ts, rest = [] \<rparr>"

definition scalarTypeDefinition :: "string \<Rightarrow> sub_node list \<Rightarrow> type_node" where
  "scalarTypeDefinition n ds =
     \<lparr> kind = ''ScalarTypeDefinition'', name = n, directives = Some ds, typeFields = None,
       enumValues = None, unionTypes = None, rest = [] \<rparr>"

definition documentA :: document where
  "documentA =
     [objectTypeDefinition ''Query'' [] [fieldDefinition ''hello'' ''String''],
      objectTypeDefinition ''Foo'' [] [fieldDefinition ''a'' ''Int'']]"

definition documentB :: document where
  "documentB =
     [objectTypeDefinition ''Query'' [] [fieldDefinition ''world'' ''String''],
      objectTypeDefinition ''Foo'' [] [fieldDefinition ''a'' ''Int'', fieldDefinition ''b'' ''Int'']]"

definition documentAB :: document where
  "documentAB =
     [objectTypeDefinition ''Query'' []
        [fieldDefinition ''hello'' ''String'', fieldDefinition ''world'' ''String''],
      objectTypeDefinition ''Foo'' [] [fieldDefinition ''a'' ''Int'', fieldDefinition ''b'' ''Int'']]"

definition fieldNames :: "type_node \<Rightarrow> string list" where
  "fieldNames d = (case typeFields d of None \<Rightarrow> [] | Some fs \<Rightarrow> map sub_name fs)"

definition keepLeftField :: subResolver where
  "keepLeftField leftType leftField rightType rightField = leftField"

definition onlyFieldResolver :: "subResolver \<Rightarrow> ConflictResolversArg" where
  "onlyFieldResolver f =
     \<lparr> fieldMergeResolverArg = Some f, directiveMergeResolverArg = None,
       enumValueMergeResolverArg = None, typeValueMergeResolverArg = None,
       scalarMergeResolverArg = None \<rparr>"

definition noSchema :: "document \<Rightarrow> schemaRegistry option" where
  "noSchema d = None"

section \<open>The store of the examples\<close>

text \<open>
  \<open>baseStore\<close> holds the objects that every program starts with, as far as the
  examples read them: \<^verbatim>\<open>Object.prototype\<close> at \<open>objectPrototype\<close> with its string-keyed
  members, \<^verbatim>\<open>Function.prototype\<close> at \<open>functionPrototype\<close> with its string-keyed data
  properties (its accessors \<^verbatim>\<open>arguments\<close> and \<^verbatim>\<open>caller\<close>, which throw, are not
  represented, and no example reads a property of these names), \<^verbatim>\<open>String.prototype\<close>
  and \<^verbatim>\<open>Number.prototype\<close> with the members that override those of
  \<^verbatim>\<open>Object.prototype\<close>, and the functions these hold, each with its own \<^verbatim>\<open>name\<close>
  and \<^verbatim>\<open>length\<close> (neither writable, both configurable) and a constructor with its
  \<^verbatim>\<open>prototype\<close> (not configurable); the static methods of the constructors are left
  out. \<open>aString\<close> is a non-empty string and \<open>aNumber\<close> a number other than zero. An
  object literal is a \<open>plainObject\<close>, and \<open>functionObject\<close> is a function written as
  an arrow or a method, which has no \<^verbatim>\<open>prototype\<close> of its own.
\<close>

definition functionPrototype :: nat where
  "functionPrototype = 1"

definition entry :: "rval \<Rightarrow> slot" where
  "entry v = Data v True True"

definition aString :: rval where
  "aString = TruthyPrim 4"

definition aNumber :: rval where
  "aNumber = TruthyPrim 5"

definition plainObject :: "robj \<Rightarrow> jsobj" where
  "plainObject kvs = \<lparr> props = map (\<lambda>(k, v). (k, entry v)) kvs, protos = [objectPrototype] \<rparr>"

definition functionObject :: "rval \<Rightarrow> rval \<Rightarrow> jsobj" where
  "functionObject nm len =
     \<lparr> props = [(''length'', Data len False True), (''name'', Data nm False True)],
       protos = [functionPrototype, objectPrototype] \<rparr>"

definition constructorObject :: "rval \<Rightarrow> nat \<Rightarrow> jsobj" where
  "constructorObject len p =
     \<lparr> props = [(''length'', Data len False True), (''name'', Data aString False True),
                (''prototype'', Data (Ref p) False False)],
       protos = [functionPrototype, objectPrototype] \<rparr>"

definition storeOf :: "(nat \<times> jsobj) list \<Rightarrow> heap" where
  "storeOf xs a = (case map_of xs a of Some ob \<Rightarrow> ob | None \<Rightarrow> \<lparr> props = [], protos = [] \<rparr>)"

definition baseObjects :: "(nat \<times> jsobj) list" where
  "baseObjects =
     [(0, \<lparr> props =
              [(''constructor'', entry (Fn 10)), (''__defineGetter__'', entry (Fn 11)),
               (''__defineSetter__'', entry (Fn 12)), (''hasOwnProperty'', entry (Fn 13)),
               (''__lookupGetter__'', entry (Fn 14)), (''__lookupSetter__'', entry (Fn 15)),
               (''isPrototypeOf'', entry (Fn 16)), (''propertyIsEnumerable'', entry (Fn 17)),
               (''toString'', entry (Fn 18)), (''valueOf'', entry (Fn 19)),
               (''__proto__'', ProtoAccessor True), (''toLocaleString'', entry (Fn 20))],
            protos = [] \<rparr>),
      (1, \<lparr> props =
              [(''length'', Data FalsyPrim False True), (''name'', Data FalsyPrim False True),
               (''constructor'', entry (Fn 21)), (''apply'', entry (Fn 22)),
               (''bind'', entry (Fn 23)), (''call'', entry (Fn 24)),
               (''toString'', entry (Fn 25))],
            protos = [0] \<rparr>),
      (2, \<lparr> props =
              [(''length'', Data FalsyPrim False False), (''constructor'', entry (Fn 26)),
               (''toString'', entry (Fn 27)), (''valueOf'', entry (Fn 28))],
            protos = [0] \<rparr>),
      (3, \<lparr> props =
              [(''constructor'', entry (Fn 29)), (''toString'', entry (Fn 30)),
               (''valueOf'', entry (Fn 31))],
            protos = [0] \<rparr>),
      (4, \<lparr> props = [(''length'', Data aNumber False False)], protos = [2, 0] \<rparr>),
      (5, \<lparr> props = [], protos = [3, 0] \<rparr>),
      (10, constructorObject aNumber 0), (11, functionObject aString aNumber),
      (12, functionObject aString aNumber), (13, functionObject aString aNumber),
      (14, functionObject aString aNumber), (15, functionObject aString aNumber),
      (16, functionObject aString aNumber), (17, functionObject aString aNumber),
      (18, functionObject aString FalsyPrim), (19, functionObject aString FalsyPrim),
      (20, functionObject aString FalsyPrim), (21, constructorObject aNumber 1),
      (22, functionObject aString aNumber), (23, functionObject aString aNumber),
      (24, functionObject aString aNumber), (25, functionObject aString FalsyPrim),
      (26, constructorObject aNumber 2), (27, functionObject aString FalsyPrim),
      (28, functionObject aString FalsyPrim), (29, constructorObject aNumber 3),
      (30, functionObject aString aNumber), (31, functionObject aString FalsyPrim)]"

definition baseStore :: heap where
  "baseStore = storeOf baseObjects"

text \<open>
  The resolver maps of the examples, each with the store that holds its nested object and
  its functions: \<open>callerMap\<close> is \<open>{T: {x: fn}}\<close>, \<open>flatMap\<close> is
  \<open>{hello: fn, world: fn, Foo: {a: fn, b: fn}}\<close>, \<open>mixedMap\<close> is
  \<open>{Query: {hello: fn}, hello: fn}\<close>, \<open>staleMap\<close> is \<open>{T: {x: fn, z: fn}}\<close>,
  \<open>inheritingMap\<close> is \<open>{Query: {x: fn}, toString: fn}\<close> and \<open>namedMap\<close> is
  \<open>{Query: fn, name: fn}\<close>. The functions are named ones without parameters.
\<close>

definition resolverFunction :: jsobj where
  "resolverFunction = functionObject aString FalsyPrim"

definition callerMap :: robj where
  "callerMap = [(''T'', Ref 40)]"

definition callerStore :: heap where
  "callerStore = storeOf (baseObjects @
     [(40, plainObject [(''x'', Fn 41)]), (41, resolverFunction)])"





definition staleMap :: robj where
  "staleMap = [(''T'', Ref 40)]"

definition staleStore :: heap where
  "staleStore = storeOf (baseObjects @
     [(40, plainObject [(''x'', Fn 41), (''z'', Fn 42)]), (41, resolverFunction),
      (42, resolverFunction)])"






section \<open>Resolver maps and documents\<close>

text \<open>
  The entries of a resolver map, as the data model has them. \<open>nestedEntry rs h T f\<close> is
  the entry \<open>[T][f]\<close>: the truthy value of an own data property \<open>f\<close> of the object
  (not a function) that the map holds as its own property \<open>T\<close>. \<open>topTruthy rs f\<close>: the
  map has an own property \<open>f\<close> with a truthy value.

  \<open>hasField doc T f\<close>: a definition named \<open>T\<close> of the document has a field named \<open>f\<close>.
  The nested leaves of a map are its entries \<open>[T][f]\<close>; its flat leaves are the functions
  at its top level, which in the flattened form name fields of the root types (the list
  is the one of \<^verbatim>\<open>buildResolvers\<close>). \<open>everyLeafNamesField\<close> is the invariant of the
  data model: every leaf names a field present in the document.
\<close>

definition dataValue :: "slot option \<Rightarrow> rval option" where
  "dataValue s = (case s of Some (Data v w c) \<Rightarrow> if truthy v then Some v else None | _ \<Rightarrow> None)"

definition nestedEntry :: "robj \<Rightarrow> heap \<Rightarrow> string \<Rightarrow> string \<Rightarrow> rval option" where
  "nestedEntry rs h T f =
     (case map_of rs T of Some (Ref a) \<Rightarrow> dataValue (map_of (props (h a)) f) | _ \<Rightarrow> None)"

definition topTruthy :: "robj \<Rightarrow> string \<Rightarrow> bool" where
  "topTruthy rs f = (case map_of rs f of Some v \<Rightarrow> truthy v | None \<Rightarrow> False)"

definition rootTypes :: "string list" where
  "rootTypes = [''Query'', ''Mutation'', ''Subscription'']"

definition hasField :: "document \<Rightarrow> string \<Rightarrow> string \<Rightarrow> bool" where
  "hasField doc T f = (\<exists>d \<in> set doc. name d = T \<and> f \<in> set (fieldNames d))"

definition nestedKeys :: "robj \<Rightarrow> heap \<Rightarrow> string \<Rightarrow> string list" where
  "nestedKeys rs h T =
     (case map_of rs T of
        Some (Ref a) \<Rightarrow>
          map fst (filter (\<lambda>(k, s). dataValue (map_of (props (h a)) k) \<noteq> None) (props (h a)))
      | _ \<Rightarrow> [])"

definition nestedLeaves :: "robj \<Rightarrow> heap \<Rightarrow> (string \<times> string) list" where
  "nestedLeaves rs h = concat (map (\<lambda>T. map (Pair T) (nestedKeys rs h T)) (map fst rs))"

definition flatLeaves :: "robj \<Rightarrow> string list" where
  "flatLeaves rs =
     map fst (filter (\<lambda>(f, v). case map_of rs f of Some (Fn k) \<Rightarrow> True | _ \<Rightarrow> False) rs)"

definition everyLeafNamesField :: "document \<Rightarrow> robj \<Rightarrow> heap \<Rightarrow> bool" where
  "everyLeafNamesField doc rs h =
     (list_all (\<lambda>(T, f). hasField doc T f) (nestedLeaves rs h)
      \<and> list_all (\<lambda>f. list_ex (\<lambda>R. hasField doc R f) rootTypes) (flatLeaves rs))"

text \<open>
  \<open>ordinaryAt tp rs h T f\<close>: the read \<^verbatim>\<open>resolvers[T][f]\<close> on the map with the own
  properties \<open>rs\<close> and the chain \<open>tp\<close> can find an own data property of an object held
  at \<open>T\<close> and nothing else. The map inherits no property named \<open>T\<close>; and the value it
  holds at \<open>T\<close>, if any, inherits no property named \<open>f\<close>, has no accessor of that name
  and, when it is a function or a primitive, no own property of that name with a truthy
  value (as the \<^verbatim>\<open>name\<close> of a named function). \<open>absentAt\<close>: moreover the map has no
  entry \<open>[T][f]\<close>.
\<close>

definition plainValue :: "heap \<Rightarrow> string \<Rightarrow> rval \<Rightarrow> bool" where
  "plainValue h f v =
     (case addressOf v of
        None \<Rightarrow> True
      | Some a \<Rightarrow>
          findSlot h (protos (h a)) f = None
          \<and> (case map_of (props (h a)) f of
                None \<Rightarrow> True
              | Some (Data u w c) \<Rightarrow> (case v of Ref b \<Rightarrow> True | _ \<Rightarrow> \<not> truthy u)
              | Some (ProtoAccessor c) \<Rightarrow> False))"

definition ordinaryAt :: "nat list \<Rightarrow> robj \<Rightarrow> heap \<Rightarrow> string \<Rightarrow> string \<Rightarrow> bool" where
  "ordinaryAt tp rs h T f =
     (findSlot h tp T = None \<and> (case map_of rs T of None \<Rightarrow> True | Some v \<Rightarrow> plainValue h f v))"

definition absentAt :: "nat list \<Rightarrow> robj \<Rightarrow> heap \<Rightarrow> string \<Rightarrow> string \<Rightarrow> bool" where
  "absentAt tp rs h T f = (ordinaryAt tp rs h T f \<and> nestedEntry rs h T f = None)"

text \<open>
  Every flat leaf names a field of a root type at which the map has no nested entry as
  well, and at which a read finds nothing else either: the map does not give one field a
  resolver in both forms.
\<close>

definition flatLeavesNotNested :: "nat list \<Rightarrow> document \<Rightarrow> robj \<Rightarrow> heap \<Rightarrow> bool" where
  "flatLeavesNotNested tp doc rs h =
     list_all (\<lambda>f. list_ex (\<lambda>R. hasField doc R f \<and> absentAt tp rs h R f) rootTypes)
       (flatLeaves rs)"

text \<open>
  \<open>structLike\<close>: the node takes the default branch of the \<^verbatim>\<open>switch\<close> of \<^verbatim>\<open>pareSDL\<close>,
  the one that pares fields. \<open>fieldsOnStructs\<close>: a node that takes another branch has no
  \<open>fields\<close> property, as the parser builds enums, unions and scalars;
  \<open>fieldsOnlyOnStructs\<close> says so of every node of a document, after the rewrite of
  extension kinds.
\<close>

definition structLike :: "type_node \<Rightarrow> bool" where
  "structLike d = (kind d \<noteq> ''EnumTypeDefinition'' \<and> kind d \<noteq> ''UnionTypeDefinition''
      \<and> kind d \<noteq> ''ScalarTypeDefinitionNode'')"

definition fieldsOnStructs :: "type_node \<Rightarrow> bool" where
  "fieldsOnStructs d = (structLike d \<or> typeFields d = None)"

definition fieldsOnlyOnStructs :: "document \<Rightarrow> bool" where
  "fieldsOnlyOnStructs doc = list_all (\<lambda>d. fieldsOnStructs (normalizeKind d)) doc"

text \<open>
  \<open>inheritsNone h chain ks\<close>: no object of the chain has an own property named in
  \<open>ks\<close>.
\<close>

definition inheritsNone :: "heap \<Rightarrow> nat list \<Rightarrow> string list \<Rightarrow> bool" where
  "inheritsNone h chain ks = list_all (\<lambda>k. findSlot h chain k = None) ks"

section \<open>Relations of the proofs about pareSDL\<close>

text \<open>
  \<open>heapShrinks h h'\<close>: from the store \<open>h\<close> to the store \<open>h'\<close> own properties were
  deleted and nothing else was done.

  \<open>pareRel tp n F F' rs h rs' h'\<close> relates the resolver map before and after a stretch of
  paring on the node named \<open>n\<close>, whose field names were \<open>F\<close> before and are \<open>F'\<close>
  after: properties are only deleted, no field is added, and a field that is gone has no
  nested entry left, and no truthy property at the top level when a read at \<open>[n][g]\<close>
  found nothing before.
\<close>

definition heapShrinks :: "heap \<Rightarrow> heap \<Rightarrow> bool" where
  "heapShrinks h h' =
     (\<forall>a. protos (h' a) = protos (h a)
        \<and> (\<forall>k s. map_of (props (h' a)) k = Some s \<longrightarrow> map_of (props (h a)) k = Some s))"

definition slotFields :: "type_node \<Rightarrow> string set" where
  "slotFields d = set (fieldNames d)"


definition pareRel ::
  "nat list \<Rightarrow> string \<Rightarrow> string set \<Rightarrow> string set \<Rightarrow> robj \<Rightarrow> heap \<Rightarrow> robj \<Rightarrow> heap \<Rightarrow> bool" where
  "pareRel tp n F F' rs h rs' h' =
     (heapShrinks h h'
      \<and> (\<forall>x v. map_of rs' x = Some v \<longrightarrow> map_of rs x = Some v)
      \<and> F' \<subseteq> F
      \<and> (\<forall>g. g \<in> F \<and> g \<notin> F' \<longrightarrow>
            nestedEntry rs' h' n g = None \<and> (absentAt tp rs h n g \<longrightarrow> \<not> topTruthy rs' g)))"




section \<open>Evaluation rules\<close>

lemmas node_defs = fieldDefinition_def directiveNode_def enumValueDefinition_def namedType_def
  objectTypeDefinition_def enumTypeDefinition_def unionTypeDefinition_def scalarTypeDefinition_def

lemmas engine_defs = normalizeKind_def endsWith_def mergeSwitch_def bindE_def
  combineTypeAndSubType_def splice_def pareSwitch_def pareTypeAndSubType_def dropIfEmpty_def
  deleteResolver_def deleteProp_def SchemataFrom_def SchemataFromString_def normalizeSource_def
  normalizeSourceText_def initialResolvers_def chosenResolvers_def objectAssignNew_def
  ast_def parseSDL_def printAST_def getTop_def getProp_def slotValue_def deleteFrom_def deleteOwn_def
  objectPrototype_def

lemmas store_defs = storeOf_def baseObjects_def baseStore_def plainObject_def functionObject_def
  constructorObject_def resolverFunction_def entry_def aString_def aNumber_def functionPrototype_def

lemmas default_defs = DefaultConflictResolvers_def DefaultFieldMergeResolver_def
  DefaultDirectiveMergeResolver_def DefaultEnumMergeResolver_def DefaultUnionMergeResolver_def
  DefaultScalarMergeResolver_def

lemmas leaf_defs = everyLeafNamesField_def flatLeavesNotNested_def nestedLeaves_def nestedKeys_def
  flatLeaves_def hasField_def fieldNames_def rootTypes_def nestedEntry_def dataValue_def
  topTruthy_def absentAt_def ordinaryAt_def plainValue_def fieldsOnlyOnStructs_def
  fieldsOnStructs_def structLike_def

section \<open>The end-to-end scenario\<close>

text \<open>
  Claim C1. With \<open>A = "type Query { hello: String } type Foo { a: Int }"\<close> and
  \<open>B = "type Query { world: String } type Foo { a: Int b: Int }"\<close>, merging \<open>B\<close> into
  \<open>A\<close> with the default resolvers gives the document \<open>documentAB\<close>, whose definitions
  are \<open>Query\<close> with exactly the fields \<open>hello\<close>, \<open>world\<close> and \<open>Foo\<close> with exactly the
  fields \<open>a\<close>, \<open>b\<close>; paring \<open>B\<close> from that result gives the document whose only
  definition is \<open>Query\<close> with the single field \<open>hello\<close>, so no definition is named
  \<open>Foo\<close>. This holds for every schema builder and every store in which
  \<^verbatim>\<open>Object.prototype\<close> has no property named as a type or a field that is pared
  (\<open>Query\<close>, \<open>Foo\<close>, \<open>world\<close>, \<open>a\<close>, \<open>b\<close>): the pare reads the empty resolver map at
  these names.
\<close>

theorem end_to_end_scenario:
  assumes "inheritsNone h [objectPrototype] [''Query'', ''Foo'', ''world'', ''a'', ''b'']"
  shows "mergeSDL bs DefaultConflictResolvers (SchemataFrom bs (Some documentA) None)
       (Text (Some documentB)) None
     = (DefaultConflictResolvers, Inr (SchemataFrom bs (Some documentAB) None))
   \<and> map name documentAB = [''Query'', ''Foo'']
   \<and> map fieldNames documentAB = [[''hello'', ''world''], [''a'', ''b'']]
   \<and> pareSDL bs h (SchemataFrom bs (Some documentAB) None) (Text (Some documentB)) None
     = (h, Inr (SchemataFrom bs
          (Some [objectTypeDefinition ''Query'' [] [fieldDefinition ''hello'' ''String'']])
          (Some [])))"
  using assms
  by (simp add: mergeSDL_def pareSDL_def documentA_def documentB_def documentAB_def fieldNames_def
      node_defs engine_defs default_defs inheritsNone_def)

text \<open>
  The witness: the scenario in the store that holds the prototype objects with the
  members the language gives them.
\<close>

theorem end_to_end_scenario_witness:
  "inheritsNone baseStore [objectPrototype] [''Query'', ''Foo'', ''world'', ''a'', ''b'']
   \<and> mergeSDL noSchema DefaultConflictResolvers (SchemataFrom noSchema (Some documentA) None)
       (Text (Some documentB)) None
     = (DefaultConflictResolvers, Inr (SchemataFrom noSchema (Some documentAB) None))
   \<and> pareSDL noSchema baseStore (SchemataFrom noSchema (Some documentAB) None) (Text (Some documentB)) None
     = (baseStore, Inr (SchemataFrom noSchema
          (Some [objectTypeDefinition ''Query'' [] [fieldDefinition ''hello'' ''String'']])
          (Some [])))"
  using end_to_end_scenario [of baseStore noSchema]
  by (simp add: inheritsNone_def store_defs objectPrototype_def)

section \<open>Collisions in a sub-collection\<close>

text \<open>
  Claim C2 says that a colliding right-hand sub-node replaces exactly the matched left-hand
  sub-node, in every category. The code reads the position from \<^verbatim>\<open>lType.fields\<close> in
  every category. Merging \<open>type T @a(v: 1) { y: Int }\<close> into
  \<open>type T @a @b { x: Int }\<close> leaves the matched \<open>@a\<close> where it is and overwrites the
  last directive \<open>@b\<close>; merging \<open>enum E { X }\<close> into \<open>enum E { X }\<close>, or
  \<open>union U = X\<close> into \<open>union U = X\<close>, throws a \<open>TypeError\<close>, since an enum and a
  union have no \<open>fields\<close>.
\<close>

theorem directive_collision_replaces_last:
  "mergeSDL bs DefaultConflictResolvers
       (SchemataFrom bs (Some [objectTypeDefinition ''T''
          [directiveNode ''a'' [], directiveNode ''b'' []] [fieldDefinition ''x'' ''Int'']]) None)
       (Text (Some [objectTypeDefinition ''T''
          [directiveNode ''a'' ''(v: 1)''] [fieldDefinition ''y'' ''Int'']])) None
     = (DefaultConflictResolvers, Inr (SchemataFrom bs (Some [objectTypeDefinition ''T''
          [directiveNode ''a'' [], directiveNode ''a'' ''(v: 1)'']
          [fieldDefinition ''x'' ''Int'', fieldDefinition ''y'' ''Int'']]) None))
   \<and> snd (mergeSDL bs DefaultConflictResolvers
       (SchemataFrom bs (Some [enumTypeDefinition ''E'' [] [enumValueDefinition ''X'']]) None)
       (Text (Some [enumTypeDefinition ''E'' [] [enumValueDefinition ''X'']])) None)
     = Inl TypeError
   \<and> snd (mergeSDL bs DefaultConflictResolvers
       (SchemataFrom bs (Some [unionTypeDefinition ''U'' [] [namedType ''X'']]) None)
       (Text (Some [unionTypeDefinition ''U'' [] [namedType ''X'']])) None)
     = Inl TypeError"
  by (simp add: mergeSDL_def node_defs engine_defs default_defs)

section \<open>Pruning of emptied containers\<close>

text \<open>
  Claim C3 says that paring the last enum value removes the enum and paring the last union
  member removes the union, as paring the last field removes an object type.
  \<^verbatim>\<open>pareTypeAndSubType\<close> reads the position of the removed element from
  \<^verbatim>\<open>lType.fields\<close>: paring \<open>enum E { A }\<close> from \<open>enum E { A }\<close> and
  \<open>union U = X\<close> from \<open>union U = X\<close> throws a \<open>TypeError\<close> in every store, and
  no document results.
\<close>

theorem pare_last_enum_value_throws:
  "pareSDL bs h (SchemataFrom bs (Some [enumTypeDefinition ''E'' [] [enumValueDefinition ''A'']]) None)
       (Text (Some [enumTypeDefinition ''E'' [] [enumValueDefinition ''A'']])) None
     = (h, Inl TypeError)
   \<and> pareSDL bs h (SchemataFrom bs (Some [unionTypeDefinition ''U'' [] [namedType ''X'']]) None)
       (Text (Some [unionTypeDefinition ''U'' [] [namedType ''X'']])) None
     = (h, Inl TypeError)"
  by (simp add: pareSDL_def node_defs engine_defs)

text \<open>
  Paring \<open>type T { x: Int }\<close> from itself removes \<open>T\<close> from the tree. No definition is
  left then: the result is built from the text that the printer gives for the empty tree,
  which does not parse, and it has no document.
\<close>

lemma pare_last_field_drops_type:
  "pareSDL bs baseStore (SchemataFrom bs (Some [objectTypeDefinition ''T'' [] [fieldDefinition ''x'' ''Int'']]) None)
       (Text (Some [objectTypeDefinition ''T'' [] [fieldDefinition ''x'' ''Int'']])) None
     = (baseStore, Inr (SchemataFrom bs (printAST []) (Some [])))
   \<and> ast (SchemataFrom bs (printAST []) (Some [])) = None"
  by (simp add: pareSDL_def node_defs engine_defs store_defs)

section \<open>Scalars\<close>

text \<open>
  Claim C4 says that for a scalar defined on both sides the scalar resolver is invoked with
  both definitions and both configs and its result attached to the merged document. The
  \<^verbatim>\<open>switch\<close> of \<^verbatim>\<open>mergeSDL\<close> compares the kind with \<^verbatim>\<open>'ScalarTypeDefinitionNode'\<close>,
  and the kind of a scalar definition is \<^verbatim>\<open>'ScalarTypeDefinition'\<close>. Merging
  \<open>scalar Date\<close> into \<open>scalar Date\<close> gives the same result for every registry of
  defaults, every supplied resolver record and every built schema on the left: the scalar
  resolver has no part in it, and the result carries the schema built from its text alone.
\<close>

theorem scalar_resolver_never_invoked:
  "snd (mergeSDL bs d
          \<lparr> sdl = Some [scalarTypeDefinition ''Date'' []], resolvers = rs, schema = lSchema \<rparr>
          (Text (Some [scalarTypeDefinition ''Date'' []])) c)
     = Inr (SchemataFrom bs (Some [scalarTypeDefinition ''Date'' []]) None)"
  by (simp add: mergeSDL_def node_defs engine_defs split: option.split)

text \<open>
  The branch for \<^verbatim>\<open>'ScalarTypeDefinitionNode'\<close> itself: on a tree with that kind, a
  config that the resolver returns makes the last step of \<^verbatim>\<open>mergeSDL\<close> throw, whether
  the merged text builds a schema or not.
\<close>

lemma scalar_branch_throws:
  "snd (mergeSDL bs DefaultConflictResolvers
          \<lparr> sdl = Some [(scalarTypeDefinition ''Date'' []) \<lparr>kind := ''ScalarTypeDefinitionNode''\<rparr>],
            resolvers = None, schema = Some (\<lambda>n. Some (ScalarConfig ''left'')) \<rparr>
          (Text (Some [scalarTypeDefinition ''Date'' []])) None)
     = (case bs [(scalarTypeDefinition ''Date'' []) \<lparr>kind := ''ScalarTypeDefinitionNode''\<rparr>] of
          None \<Rightarrow> Inl TypeError | Some g \<Rightarrow> Inl ReferenceError)"
  by (auto simp: mergeSDL_def node_defs engine_defs default_defs Let_def split: option.splits)

section \<open>The resolver map after a pare\<close>













lemma pareRel_top:
  "pareRel tp n F F' rs h rs' h' \<Longrightarrow> map_of rs' x = Some v \<Longrightarrow> map_of rs x = Some v"
  by (simp add: pareRel_def)

lemma pareRel_top_None:
  "pareRel tp n F F' rs h rs' h' \<Longrightarrow> map_of rs x = None \<Longrightarrow> map_of rs' x = None"
  using pareRel_top [of tp n F F' rs h rs' h' x] by (cases "map_of rs' x") auto









lemma protos_deleteOwn [simp]: "protos (deleteOwn k ob) = protos ob"
  by (simp add: deleteOwn_def)















lemma name_setSub [simp]: "name (setSub s xs l) = name l"
  by (cases s) simp_all

lemma kind_setSub [simp]: "kind (setSub s xs l) = kind l"
  by (cases s) simp_all































lemma slotFields_normalizeKind [simp]: "slotFields (normalizeKind r) = slotFields r"
  by (simp add: slotFields_def fieldNames_def normalizeKind_def)



























text \<open>
  A leaf that names no field before the pare is never removed: with the map
  \<open>{T: {x: fn, z: fn}}\<close>, paring \<open>type T { x: Int }\<close> from \<open>type T { x: Int y: Int }\<close>
  leaves the entry \<open>T.z\<close> in the result, whose \<open>T\<close> has the field \<open>y\<close> alone.
\<close>

lemma stale_entry_stays:
  "snd (pareSDL noSchema staleStore
        (SchemataFrom noSchema (Some [objectTypeDefinition ''T'' []
            [fieldDefinition ''x'' ''Int'', fieldDefinition ''y'' ''Int'']]) None)
        (Text (Some [objectTypeDefinition ''T'' [] [fieldDefinition ''x'' ''Int'']]))
        (Some staleMap))
     = Inr \<lparr> sdl = Some [objectTypeDefinition ''T'' [] [fieldDefinition ''y'' ''Int'']],
             resolvers = Some staleMap, schema = None \<rparr>
   \<and> \<not> everyLeafNamesField
      [objectTypeDefinition ''T'' [] [fieldDefinition ''y'' ''Int'']]
      staleMap
      (fst (pareSDL noSchema staleStore
        (SchemataFrom noSchema (Some [objectTypeDefinition ''T'' []
            [fieldDefinition ''x'' ''Int'', fieldDefinition ''y'' ''Int'']]) None)
        (Text (Some [objectTypeDefinition ''T'' [] [fieldDefinition ''x'' ''Int'']]))
        (Some staleMap)))"
  by (simp add: pareSDL_def node_defs engine_defs store_defs leaf_defs staleMap_def staleStore_def
      noSchema_def)



section \<open>The caller's resolver map\<close>

text \<open>
  Claim C6 says that the resolver map a caller supplies is left unchanged. \<^verbatim>\<open>pareSDL\<close>
  copies the top level of the map only. The caller holds the map \<open>{T: {x: fn}}\<close>, its
  nested object at address 40 of the store. Paring \<open>type T { x: Int }\<close> from
  \<open>type T { x: Int y: Int }\<close> with that map returns a result, and afterwards the caller's
  own map has no entry at \<open>T.x\<close>.
\<close>

theorem pare_mutates_caller_map:
  "nestedEntry callerMap callerStore ''T'' ''x'' = Some (Fn 41)
   \<and> snd (pareSDL bs callerStore
           (SchemataFrom bs (Some [objectTypeDefinition ''T'' []
               [fieldDefinition ''x'' ''Int'', fieldDefinition ''y'' ''Int'']]) None)
           (Text (Some [objectTypeDefinition ''T'' [] [fieldDefinition ''x'' ''Int'']]))
           (Some callerMap))
       = Inr (SchemataFrom bs
           (Some [objectTypeDefinition ''T'' [] [fieldDefinition ''y'' ''Int'']]) (Some callerMap))
   \<and> nestedEntry callerMap
        (fst (pareSDL bs callerStore
           (SchemataFrom bs (Some [objectTypeDefinition ''T'' []
               [fieldDefinition ''x'' ''Int'', fieldDefinition ''y'' ''Int'']]) None)
           (Text (Some [objectTypeDefinition ''T'' [] [fieldDefinition ''x'' ''Int'']]))
           (Some callerMap)))
        ''T'' ''x'' = None"
  by (simp add: pareSDL_def node_defs engine_defs store_defs nestedEntry_def dataValue_def
      callerMap_def callerStore_def)

section \<open>Extension nodes\<close>

lemma name_normalizeKind [simp]: "name (normalizeKind r) = name r"
  by (simp add: normalizeKind_def)

lemma getSub_normalizeKind [simp]: "getSub s (normalizeKind r) = getSub s r"
  by (cases s) (simp_all add: normalizeKind_def)

lemma not_endsWith_Definition: "\<not> endsWith (K @ ''Definition'') ''Extension''"
  by (simp add: endsWith_def)

lemma normalizeKind_Extension:
  "normalizeKind (r\<lparr>kind := K @ ''Extension''\<rparr>) = r\<lparr>kind := K @ ''Definition''\<rparr>"
  by (simp add: normalizeKind_def endsWith_def)

lemma normalizeKind_Definition:
  "normalizeKind (r\<lparr>kind := K @ ''Definition''\<rparr>) = r\<lparr>kind := K @ ''Definition''\<rparr>"
  by (simp add: normalizeKind_def not_endsWith_Definition)

lemma normalizeKind_idem [simp]: "normalizeKind (normalizeKind r) = normalizeKind r"
proof (cases "endsWith (kind r) ''Extension''")
  case True
  then have "normalizeKind r = r\<lparr>kind := take (length (kind r) - 9) (kind r) @ ''Definition''\<rparr>"
    by (simp add: normalizeKind_def)
  then show ?thesis by (simp add: normalizeKind_Definition)
next
  case False
  then show ?thesis by (simp add: normalizeKind_def)
qed

lemma mergeLoop_normalized:
  "mergeLoop cr lS rS (map normalizeKind B) st = mergeLoop cr lS rS B st"
proof (induction B arbitrary: st)
  case Nil
  show ?case by simp
next
  case (Cons r B)
  obtain lAST sf where st: "st = (lAST, sf)" by (cases st)
  show ?case
    unfolding st by (simp add: Cons.IH Let_def split: option.split)
qed

lemma pareDefinitions_normalized:
  "pareDefinitions tp (map normalizeKind B) st = pareDefinitions tp B st"
proof (induction B arbitrary: st)
  case Nil
  show ?case by simp
next
  case (Cons r B)
  obtain lAST rs h where st: "st = (lAST, rs, h)" by (cases st)
  show ?case
    unfolding st by (simp add: Cons.IH Let_def split: option.split)
qed

text \<open>
  Claim C7. A right-hand node whose kind is \<open>K @ ''Extension''\<close> is rewritten to the same
  node with the kind \<open>K @ ''Definition''\<close>, every other property unchanged; a node whose
  kind does not end in \<open>Extension\<close> is left as it is; a node with no left-hand node of its
  name is appended in its rewritten form. Consequently, for the same resolvers and built
  schemas, a source document with an extension node merges into any left-hand state exactly
  as the document with the base definition in its place, and the same holds for the
  paring loop.
\<close>

theorem extension_folding:
  "normalizeKind (r\<lparr>kind := K @ ''Extension''\<rparr>) = r\<lparr>kind := K @ ''Definition''\<rparr>
   \<and> (\<not> endsWith (kind r) ''Extension'' \<longrightarrow> normalizeKind r = r)
   \<and> (find (\<lambda>a. name a = name r) lAST = None \<longrightarrow>
        mergeLoop cr lS rS [r] (lAST, sf) = Inr (lAST @ [normalizeKind r], sf))
   \<and> mergeLoop cr lS rS (pre @ r\<lparr>kind := K @ ''Extension''\<rparr> # post) st
       = mergeLoop cr lS rS (pre @ r\<lparr>kind := K @ ''Definition''\<rparr> # post) st
   \<and> pareDefinitions tp (pre @ r\<lparr>kind := K @ ''Extension''\<rparr> # post) pst
       = pareDefinitions tp (pre @ r\<lparr>kind := K @ ''Definition''\<rparr> # post) pst"
proof -
  have same: "map normalizeKind (pre @ r\<lparr>kind := K @ ''Extension''\<rparr> # post)
      = map normalizeKind (pre @ r\<lparr>kind := K @ ''Definition''\<rparr> # post)"
    by (simp add: normalizeKind_Extension normalizeKind_Definition)
  have m: "mergeLoop cr lS rS (pre @ r\<lparr>kind := K @ ''Extension''\<rparr> # post) st
       = mergeLoop cr lS rS (pre @ r\<lparr>kind := K @ ''Definition''\<rparr> # post) st"
    using mergeLoop_normalized [of cr lS rS "pre @ r\<lparr>kind := K @ ''Extension''\<rparr> # post" st]
      mergeLoop_normalized [of cr lS rS "pre @ r\<lparr>kind := K @ ''Definition''\<rparr> # post" st]
    by (simp only: same)
  have p: "pareDefinitions tp (pre @ r\<lparr>kind := K @ ''Extension''\<rparr> # post) pst
       = pareDefinitions tp (pre @ r\<lparr>kind := K @ ''Definition''\<rparr> # post) pst"
    using pareDefinitions_normalized [of tp "pre @ r\<lparr>kind := K @ ''Extension''\<rparr> # post" pst]
      pareDefinitions_normalized [of tp "pre @ r\<lparr>kind := K @ ''Definition''\<rparr> # post" pst]
    by (simp only: same)
  have n: "\<not> endsWith (kind r) ''Extension'' \<longrightarrow> normalizeKind r = r"
    by (simp add: normalizeKind_def)
  have u: "find (\<lambda>a. name a = name r) lAST = None \<longrightarrow>
        mergeLoop cr lS rS [r] (lAST, sf) = Inr (lAST @ [normalizeKind r], sf)"
    by simp
  show ?thesis using normalizeKind_Extension m p n u by blast
qed

text \<open>
  The witness: \<open>type Foo { b: Int }\<close> is no extension and is appended to the empty
  document as it is; as \<open>extend type Foo { b: Int }\<close> (kind \<open>ObjectTypeExtension\<close>) it
  merges into \<open>type Foo { a: Int }\<close> to \<open>type Foo { a: Int b: Int }\<close>.
\<close>

theorem extension_folding_witness:
  "\<not> endsWith (kind (objectTypeDefinition ''Foo'' [] [fieldDefinition ''b'' ''Int''])) ''Extension''
   \<and> normalizeKind (objectTypeDefinition ''Foo'' [] [fieldDefinition ''b'' ''Int''])
       = objectTypeDefinition ''Foo'' [] [fieldDefinition ''b'' ''Int'']
   \<and> find (\<lambda>a. name a = name (objectTypeDefinition ''Foo'' [] [fieldDefinition ''b'' ''Int''])) [] = None
   \<and> mergeLoop DefaultConflictResolvers None None
        [objectTypeDefinition ''Foo'' [] [fieldDefinition ''b'' ''Int'']] ([], [])
       = Inr ([objectTypeDefinition ''Foo'' [] [fieldDefinition ''b'' ''Int'']], [])
   \<and> mergeLoop DefaultConflictResolvers None None
        [(objectTypeDefinition ''Foo'' [] [fieldDefinition ''b'' ''Int''])
           \<lparr>kind := ''ObjectType'' @ ''Extension''\<rparr>]
        ([objectTypeDefinition ''Foo'' [] [fieldDefinition ''a'' ''Int'']], [])
       = Inr ([objectTypeDefinition ''Foo'' []
                 [fieldDefinition ''a'' ''Int'', fieldDefinition ''b'' ''Int'']], [])"
  using extension_folding [where r = "objectTypeDefinition ''Foo'' [] [fieldDefinition ''b'' ''Int'']"
      and K = "''ObjectType''" and lAST = "[]"
      and cr = DefaultConflictResolvers and lS = None and rS = None and sf = "[]" and pre = "[]"
      and post = "[]" and st = "([objectTypeDefinition ''Foo'' [] [fieldDefinition ''a'' ''Int'']], [])"
      and pst = "([], [], baseStore)" and tp = "[objectPrototype]"]
  by (simp add: node_defs engine_defs default_defs)

section \<open>Invalid input\<close>



section \<open>Merging the empty document\<close>

text \<open>
  Claim C9, as amended. The claim says that merging an empty document into \<open>A\<close> gives
  \<open>A\<close>; the counterexample below shows that it gives no document. What the code does:
  for every instance, every registry and every resolver argument, merging the empty text
  ends with the \<^verbatim>\<open>Error\<close> that \<^verbatim>\<open>normalizeSource\<close> throws for the empty string, and the
  registry is as before the call.
\<close>

theorem merge_empty_source_throws:
  "mergeSDL bs d this (Falsy JsEmptyString) c
     = (d, Inl (ErrorInline invalidTypeDefsTemplate [JsEmptyString]))"
  by (simp add: mergeSDL_def normalizeSource_def normalizeSourceText_def bindE_def)

text \<open>
  The counterexample to claim C9 as stated, with the document \<open>A\<close> of the scenario:
  merging the empty text into it ends with the \<^verbatim>\<open>Error\<close> of \<^verbatim>\<open>normalizeSource\<close>, and
  merging a text without a definition (blanks, a comment) with a \<open>TypeError\<close>.
\<close>

theorem merge_empty_is_no_identity:
  "snd (mergeSDL noSchema DefaultConflictResolvers (SchemataFrom noSchema (Some documentA) None)
          (Falsy JsEmptyString) None)
     = Inl (ErrorInline invalidTypeDefsTemplate [JsEmptyString])
   \<and> snd (mergeSDL noSchema DefaultConflictResolvers (SchemataFrom noSchema (Some documentA) None)
          (Text (Some [])) None)
     = Inl TypeError
   \<and> ast (SchemataFrom noSchema (Some documentA) None) = Some documentA"
  by (simp add: mergeSDL_def normalizeSource_def normalizeSourceText_def SchemataFromString_def
      SchemataFrom_def bindE_def ast_def parseSDL_def documentA_def)

text \<open>
  A text without a definition does not parse, so \<^verbatim>\<open>source.ast\<close> is null and the loop of
  \<^verbatim>\<open>mergeSDL\<close> fails at \<^verbatim>\<open>rAST.definitions\<close>, on every instance.
\<close>

lemma merge_blank_text_throws:
  "snd (mergeSDL bs d this (Text (Some [])) c) = Inl TypeError"
  by (simp add: mergeSDL_def normalizeSource_def normalizeSourceText_def SchemataFromString_def
      SchemataFrom_def bindE_def ast_def parseSDL_def Let_def)

section \<open>The module-level registry of default resolvers\<close>

text \<open>
  Claim C10. A call of \<^verbatim>\<open>mergeSDL\<close> with a resolver record \<open>c\<close> and a source that is
  not falsy leaves the module-level registry as \<open>assignResolvers d c\<close>: the defaults
  overwritten by \<open>c\<close>. Every later call that supplies no resolvers, on any instance and
  any source, then returns what a call supplying \<open>c\<close> would have returned on the
  registry before. After a call that supplied only a field resolver keeping the left-hand
  field, merging \<open>type T { x: String }\<close> into \<open>type T { x: Int }\<close> with no resolvers
  keeps \<open>x: Int\<close>, where the documented default keeps \<open>x: String\<close>.
\<close>

theorem defaults_registry_mutated:
  "fst (mergeSDL bs d this (Text t) (Some c)) = assignResolvers d c
   \<and> fst (mergeSDL bs d this (GraphQLSchemaValue t m) (Some c)) = assignResolvers d c
   \<and> mergeSDL bs (assignResolvers d c) this2 src2 None
       = (assignResolvers d c, snd (mergeSDL bs d this2 src2 (Some c)))
   \<and> fieldMergeResolver (fst (mergeSDL bs DefaultConflictResolvers this (Text t)
          (Some (onlyFieldResolver keepLeftField)))) = keepLeftField
   \<and> mergeSDL bs
        (fst (mergeSDL bs DefaultConflictResolvers this (Text t) (Some (onlyFieldResolver keepLeftField))))
        (SchemataFrom bs (Some [objectTypeDefinition ''T'' [] [fieldDefinition ''x'' ''Int'']]) None)
        (Text (Some [objectTypeDefinition ''T'' [] [fieldDefinition ''x'' ''String'']])) None
       = (assignResolvers DefaultConflictResolvers (onlyFieldResolver keepLeftField),
          Inr (SchemataFrom bs (Some [objectTypeDefinition ''T'' [] [fieldDefinition ''x'' ''Int'']]) None))
   \<and> mergeSDL bs DefaultConflictResolvers
        (SchemataFrom bs (Some [objectTypeDefinition ''T'' [] [fieldDefinition ''x'' ''Int'']]) None)
        (Text (Some [objectTypeDefinition ''T'' [] [fieldDefinition ''x'' ''String'']])) None
       = (DefaultConflictResolvers,
          Inr (SchemataFrom bs (Some [objectTypeDefinition ''T'' [] [fieldDefinition ''x'' ''String'']]) None))"
proof -
  have a: "fst (mergeSDL bs d this (Text t) (Some c)) = assignResolvers d c"
    by (simp add: mergeSDL_def normalizeSource_def normalizeSourceText_def SchemataFromString_def bindE_def Let_def)
  have b: "fst (mergeSDL bs d this (GraphQLSchemaValue t m) (Some c)) = assignResolvers d c"
    by (simp add: mergeSDL_def normalizeSource_def normalizeSourceText_def SchemataFromString_def bindE_def Let_def)
  have c: "mergeSDL bs (assignResolvers d c) this2 src2 None
       = (assignResolvers d c, snd (mergeSDL bs d this2 src2 (Some c)))"
    by (cases src2) (simp_all add: mergeSDL_def normalizeSource_def normalizeSourceText_def SchemataFromString_def bindE_def Let_def split: option.splits)
  have d: "fst (mergeSDL bs DefaultConflictResolvers this (Text t)
          (Some (onlyFieldResolver keepLeftField)))
      = assignResolvers DefaultConflictResolvers (onlyFieldResolver keepLeftField)"
    by (simp add: mergeSDL_def normalizeSource_def normalizeSourceText_def SchemataFromString_def bindE_def Let_def)
  have e: "fieldMergeResolver (assignResolvers DefaultConflictResolvers (onlyFieldResolver keepLeftField))
      = keepLeftField"
    by (simp add: assignResolvers_def onlyFieldResolver_def)
  have f: "mergeSDL bs (assignResolvers DefaultConflictResolvers (onlyFieldResolver keepLeftField))
        (SchemataFrom bs (Some [objectTypeDefinition ''T'' [] [fieldDefinition ''x'' ''Int'']]) None)
        (Text (Some [objectTypeDefinition ''T'' [] [fieldDefinition ''x'' ''String'']])) None
       = (assignResolvers DefaultConflictResolvers (onlyFieldResolver keepLeftField),
          Inr (SchemataFrom bs (Some [objectTypeDefinition ''T'' [] [fieldDefinition ''x'' ''Int'']]) None))"
    by (simp add: mergeSDL_def node_defs engine_defs default_defs assignResolvers_def
        onlyFieldResolver_def keepLeftField_def)
  have g: "mergeSDL bs DefaultConflictResolvers
        (SchemataFrom bs (Some [objectTypeDefinition ''T'' [] [fieldDefinition ''x'' ''Int'']]) None)
        (Text (Some [objectTypeDefinition ''T'' [] [fieldDefinition ''x'' ''String'']])) None
       = (DefaultConflictResolvers,
          Inr (SchemataFrom bs (Some [objectTypeDefinition ''T'' [] [fieldDefinition ''x'' ''String'']]) None))"
    by (simp add: mergeSDL_def node_defs engine_defs default_defs)
  show ?thesis
    unfolding d using a b c e f g by simp
qed

end
